theory Spec2Isabelle
  imports Complex_Main
begin

section \<open>Numbers\<close>

text \<open>
  The program computes on JavaScript numbers. The finite fragment is modelled on the
  reals (no rounding, no overflow, no signed zero). The remainder operator \<open>%\<close> of
  JavaScript truncates the quotient towards zero, so the result carries the sign of the
  dividend: \<open>-3 % 360 = -3\<close>.
\<close>

definition trunc :: "real \<Rightarrow> int" where
  "trunc q = (if 0 \<le> q then \<lfloor>q\<rfloor> else \<lceil>q\<rceil>)"

definition js_rem :: "real \<Rightarrow> real \<Rightarrow> real" where
  "js_rem a n = a - n * of_int (trunc (a / n))"

section \<open>The direction table and the classifier\<close>

text \<open>
  \<open>CARDINAL_DIRECTIONS\<close> of \<open>App.js\<close>: eight records in source order. The fields
  \<open>min\<close> and \<open>max\<close> of the source are \<open>min_deg\<close> and \<open>max_deg\<close> here.
\<close>

record direction =
  label :: string
  min_deg :: real
  max_deg :: real
  color :: string

definition CARDINAL_DIRECTIONS :: "direction list" where
  "CARDINAL_DIRECTIONS =
    [ \<lparr>label = ''N'',  min_deg = 337.5, max_deg = 22.5,  color = ''#FF5252''\<rparr>,
      \<lparr>label = ''NE'', min_deg = 22.5,  max_deg = 67.5,  color = ''#FFFFFF''\<rparr>,
      \<lparr>label = ''E'',  min_deg = 67.5,  max_deg = 112.5, color = ''#4CAF50''\<rparr>,
      \<lparr>label = ''SE'', min_deg = 112.5, max_deg = 157.5, color = ''#FFFFFF''\<rparr>,
      \<lparr>label = ''S'',  min_deg = 157.5, max_deg = 202.5, color = ''#2196F3''\<rparr>,
      \<lparr>label = ''SW'', min_deg = 202.5, max_deg = 247.5, color = ''#FFFFFF''\<rparr>,
      \<lparr>label = ''W'',  min_deg = 247.5, max_deg = 292.5, color = ''#FFC107''\<rparr>,
      \<lparr>label = ''NW'', min_deg = 292.5, max_deg = 337.5, color = ''#FFFFFF''\<rparr> ]"

definition PRIMARY_DIRECTIONS :: "string list" where
  "PRIMARY_DIRECTIONS = [''N'', ''E'', ''S'', ''W'']"

text \<open>The predicate handed to \<open>Array.prototype.find\<close> in \<open>getCardinalDirection\<close>.\<close>

definition in_range :: "real \<Rightarrow> direction \<Rightarrow> bool" where
  "in_range normalizedAngle dir =
    (if min_deg dir > max_deg dir
     then normalizedAngle \<ge> min_deg dir \<or> normalizedAngle < max_deg dir
     else normalizedAngle \<ge> min_deg dir \<and> normalizedAngle < max_deg dir)"

definition normalize :: "real \<Rightarrow> real" where
  "normalize currentAngle = js_rem (currentAngle + 360) 360"

text \<open>
  \<open>find\<close> returns the first matching element or \<open>undefined\<close>; the function then
  returns the label or the empty string.
\<close>

definition getCardinalDirection :: "real \<Rightarrow> string" where
  "getCardinalDirection currentAngle =
    (let normalizedAngle = normalize currentAngle in
     case find (in_range normalizedAngle) CARDINAL_DIRECTIONS of
       Some direction \<Rightarrow> label direction
     | None \<Rightarrow> '''')"

definition getDirectionColor :: "string \<Rightarrow> string" where
  "getDirectionColor direction =
    (case find (\<lambda>d. label d = direction) CARDINAL_DIRECTIONS of
       Some dir \<Rightarrow> color dir
     | None \<Rightarrow> ''#FFFFFF'')"


section \<open>The raw heading\<close>

text \<open>
  \<open>Math.atan2(y, x)\<close> is a built-in of the language. It is modelled by its mathematical
  definition on the reals, the angle of the point \<open>(x, y)\<close> in \<open>(-\<pi>, \<pi>]\<close>, with the
  value 0 at the origin, which is what ECMAScript gives for \<open>atan2(+0, +0)\<close>: a real
  zero stands for the positive zero. The negative zero is treated in
  \<open>atan2_signed\<close> below.
\<close>

definition atan2 :: "real \<Rightarrow> real \<Rightarrow> real" where
  "atan2 y x =
    (if x > 0 then arctan (y / x)
     else if x < 0 then (if y \<ge> 0 then arctan (y / x) + pi else arctan (y / x) - pi)
     else if y > 0 then pi / 2
     else if y < 0 then - (pi / 2)
     else 0)"

text \<open>The first two statements of the listener: degrees, and 360 added when negative.\<close>

definition raw_heading :: "real \<Rightarrow> real \<Rightarrow> real" where
  "raw_heading x y =
    (let heading = atan2 y x * (180 / pi) in
     if heading \<ge> 0 then heading else 360 + heading)"

section \<open>Smoothing\<close>

text \<open>The statement under the comment \<open>Handle 360-0 transition smoothly\<close>.\<close>

definition correct_delta :: "real \<Rightarrow> real" where
  "correct_delta delta =
    (if \<bar>delta\<bar> > 180 then (if delta > 0 then delta - 360 else delta + 360) else delta)"

text \<open>
  \<open>newAngle\<close> as the listener computes it from the captured \<open>angle\<close> and the raw
  heading; the damping factor is the literal 0.3.
\<close>

definition newAngle :: "real \<Rightarrow> real \<Rightarrow> real" where
  "newAngle currentValue heading =
    (let delta = correct_delta (heading - currentValue) in
     js_rem (currentValue + delta * 0.3) 360)"

text \<open>
  The same computation with the literal 0.3 taken as a parameter, for the statements
  that range over the damping factor; \<open>newAngle\<close> is its instance at 0.3.
\<close>

definition smooth :: "real \<Rightarrow> real \<Rightarrow> real \<Rightarrow> real" where
  "smooth dampingFactor currentValue heading =
    (let delta = correct_delta (heading - currentValue) in
     js_rem (currentValue + delta * dampingFactor) 360)"

text \<open>
  The circular distance of two angles in degrees, the measure in which the step size of
  the smoother is stated: the shorter of the two arcs between them.
\<close>

definition wrap360 :: "real \<Rightarrow> real" where
  "wrap360 t = t - 360 * of_int \<lfloor>t / 360\<rfloor>"

definition circ_dist :: "real \<Rightarrow> real \<Rightarrow> real" where
  "circ_dist a b = min (wrap360 (a - b)) (360 - wrap360 (a - b))"

section \<open>The listener and the effect that owns it\<close>

text \<open>
  The effect of \<open>CompassApp\<close> captures the state variable \<open>angle\<close> as a constant of
  its closure and declares the mutable local \<open>lastDirection\<close>. An instance of the
  effect is this pair.
\<close>

record effect =
  angle :: real
  lastDirection :: string

text \<open>
  The body of the effect up to the subscription: \<open>lastDirection\<close> starts as the label
  of the captured angle.
\<close>

definition mount :: "real \<Rightarrow> effect" where
  "mount a = \<lparr>angle = a, lastDirection = getCardinalDirection a\<rparr>"

text \<open>
  The callback given to \<open>Magnetometer.addListener\<close>, as a function of the raw heading.
  It returns the argument of \<open>setAngle\<close>, whether \<open>Haptics.impactAsync\<close> was called, and
  the closure after the call.
\<close>

definition on_heading :: "effect \<Rightarrow> real \<Rightarrow> real \<times> bool \<times> effect" where
  "on_heading e heading =
    (let new = newAngle (angle e) heading;
         newDirection = getCardinalDirection new
     in if newDirection \<in> set PRIMARY_DIRECTIONS \<and> newDirection \<noteq> lastDirection e
        then (new, True, e\<lparr>lastDirection := newDirection\<rparr>)
        else (new, False, e))"

definition listener :: "effect \<Rightarrow> real \<times> real \<Rightarrow> real \<times> bool \<times> effect" where
  "listener e s = on_heading e (raw_heading (fst s) (snd s))"

text \<open>
  One delivered sample followed by the rendering it causes. \<open>setAngle\<close> with a value
  different from the current state renders the component again; \<open>angle\<close> is in the
  dependency list of the effect, so the effect is cleaned up and run again with the new
  angle, which declares \<open>lastDirection\<close> anew. \<open>setAngle\<close> with the current value
  renders nothing and the closure stays. The result is whether the haptic call was
  made, and the effect instance that receives the next sample.
\<close>

definition deliver :: "effect \<Rightarrow> real \<times> real \<Rightarrow> bool \<times> effect" where
  "deliver e s =
    (case listener e s of
       (new, fired, e') \<Rightarrow> (fired, if new = angle e then e' else mount new))"

text \<open>
  A sequence of samples, from the first to the last: the haptic flags and the displayed
  labels, one per sample, and the final instance.
\<close>

fun run :: "effect \<Rightarrow> (real \<times> real) list \<Rightarrow> (bool \<times> string) list \<times> effect" where
  "run e [] = ([], e)"
| "run e (s # ss) =
    (case deliver e s of
       (fired, e') \<Rightarrow>
         (case run e' ss of
            (out, e'') \<Rightarrow> ((fired, getCardinalDirection (angle e')) # out, e'')))"

text \<open>The component starts with \<open>useState(0)\<close>.\<close>

definition initial :: effect where
  "initial = mount 0"

section \<open>The negative zero\<close>

text \<open>
  A coordinate of a sample is a double, and a double has two zeros. \<open>Math.atan2\<close> tells
  them apart: ECMAScript gives \<open>atan2(+0, -0) = \<pi>\<close> and \<open>atan2(-0, -0) = -\<pi>\<close>,
  and \<open>-\<pi>\<close> too for \<open>y = -0\<close> and \<open>x < 0\<close>, where the positive zero gives \<open>\<pi>\<close>. A
  coordinate is therefore a real, whose 0 is the positive zero, or the negative zero.
\<close>

datatype coordinate = Val real | NegZero

fun value_of :: "coordinate \<Rightarrow> real" where
  "value_of (Val r) = r"
| "value_of NegZero = 0"

text \<open>
  \<open>Math.atan2(y, x)\<close> on such coordinates. For a zero \<open>y\<close> the result is a zero when
  \<open>x\<close> is positive or the positive zero, and otherwise \<open>\<pi>\<close> with the sign of \<open>y\<close>.
  The sign of a zero result is dropped: the listener goes on with a product, a
  comparison with 0, sums and a remainder, and none of them gives the two zeros
  different values.
\<close>

definition atan2_signed :: "coordinate \<Rightarrow> coordinate \<Rightarrow> real" where
  "atan2_signed y x =
    (if value_of y = 0
     then (if value_of x > 0 \<or> x = Val 0 then 0
           else if y = NegZero then - pi else pi)
     else atan2 (value_of y) (value_of x))"

definition raw_heading_signed :: "coordinate \<Rightarrow> coordinate \<Rightarrow> real" where
  "raw_heading_signed x y =
    (let heading = atan2_signed y x * (180 / pi) in
     if heading \<ge> 0 then heading else 360 + heading)"

definition listener_signed ::
  "effect \<Rightarrow> coordinate \<times> coordinate \<Rightarrow> real \<times> bool \<times> effect" where
  "listener_signed e s = on_heading e (raw_heading_signed (fst s) (snd s))"

section \<open>Non-finite numbers\<close>

text \<open>
  For the behaviour on \<open>NaN\<close> and the infinities the listener is modelled a second time
  on JavaScript numbers with their non-finite values: a real, \<open>+Infinity\<close>,
  \<open>-Infinity\<close> or \<open>NaN\<close>. The operations follow IEEE 754 as ECMAScript prescribes
  them; the two zeros are not distinguished. Every comparison with \<open>NaN\<close> is false.
\<close>

datatype jsnum = Num real | PosInf | NegInf | NaN

fun js_neg :: "jsnum \<Rightarrow> jsnum" where
  "js_neg (Num a) = Num (- a)"
| "js_neg PosInf = NegInf"
| "js_neg NegInf = PosInf"
| "js_neg NaN = NaN"

fun js_add :: "jsnum \<Rightarrow> jsnum \<Rightarrow> jsnum" where
  "js_add NaN _ = NaN"
| "js_add _ NaN = NaN"
| "js_add PosInf NegInf = NaN"
| "js_add NegInf PosInf = NaN"
| "js_add PosInf _ = PosInf"
| "js_add _ PosInf = PosInf"
| "js_add NegInf _ = NegInf"
| "js_add _ NegInf = NegInf"
| "js_add (Num a) (Num b) = Num (a + b)"

definition js_sub :: "jsnum \<Rightarrow> jsnum \<Rightarrow> jsnum" where
  "js_sub a b = js_add a (js_neg b)"

text \<open>The sign of a non-\<open>NaN\<close> number: -1, 0 or 1.\<close>

fun js_sign :: "jsnum \<Rightarrow> real" where
  "js_sign (Num a) = sgn a"
| "js_sign PosInf = 1"
| "js_sign NegInf = - 1"
| "js_sign NaN = 0"

fun js_mul :: "jsnum \<Rightarrow> jsnum \<Rightarrow> jsnum" where
  "js_mul NaN _ = NaN"
| "js_mul _ NaN = NaN"
| "js_mul (Num a) (Num b) = Num (a * b)"
| "js_mul a b =
    (if js_sign a * js_sign b = 0 then NaN
     else if js_sign a * js_sign b > 0 then PosInf else NegInf)"

fun js_abs :: "jsnum \<Rightarrow> jsnum" where
  "js_abs (Num a) = Num \<bar>a\<bar>"
| "js_abs PosInf = PosInf"
| "js_abs NegInf = PosInf"
| "js_abs NaN = NaN"

fun js_gt :: "jsnum \<Rightarrow> jsnum \<Rightarrow> bool" where
  "js_gt NaN _ = False"
| "js_gt _ NaN = False"
| "js_gt (Num a) (Num b) = (a > b)"
| "js_gt PosInf PosInf = False"
| "js_gt PosInf _ = True"
| "js_gt NegInf _ = False"
| "js_gt (Num a) NegInf = True"
| "js_gt (Num a) PosInf = False"

fun js_ge :: "jsnum \<Rightarrow> jsnum \<Rightarrow> bool" where
  "js_ge NaN _ = False"
| "js_ge _ NaN = False"
| "js_ge a b = (a = b \<or> js_gt a b)"

definition js_lt :: "jsnum \<Rightarrow> jsnum \<Rightarrow> bool" where
  "js_lt a b = js_gt b a"

text \<open>
  The remainder \<open>a % n\<close>: \<open>NaN\<close> for an infinite dividend or a zero divisor, the
  dividend for a finite dividend and an infinite divisor.
\<close>

fun js_mod :: "jsnum \<Rightarrow> jsnum \<Rightarrow> jsnum" where
  "js_mod NaN _ = NaN"
| "js_mod _ NaN = NaN"
| "js_mod PosInf _ = NaN"
| "js_mod NegInf _ = NaN"
| "js_mod (Num a) PosInf = Num a"
| "js_mod (Num a) NegInf = Num a"
| "js_mod (Num a) (Num n) = (if n = 0 then NaN else Num (js_rem a n))"

text \<open>
  \<open>Math.atan2(y, x)\<close> with the cases of ECMAScript for non-finite arguments; on two
  reals it is \<open>atan2\<close>.
\<close>

fun js_atan2 :: "jsnum \<Rightarrow> jsnum \<Rightarrow> jsnum" where
  "js_atan2 NaN _ = NaN"
| "js_atan2 _ NaN = NaN"
| "js_atan2 PosInf PosInf = Num (pi / 4)"
| "js_atan2 PosInf NegInf = Num (3 * pi / 4)"
| "js_atan2 PosInf (Num x) = Num (pi / 2)"
| "js_atan2 NegInf PosInf = Num (- (pi / 4))"
| "js_atan2 NegInf NegInf = Num (- (3 * pi / 4))"
| "js_atan2 NegInf (Num x) = Num (- (pi / 2))"
| "js_atan2 (Num y) PosInf = Num 0"
| "js_atan2 (Num y) NegInf = (if y \<ge> 0 then Num pi else Num (- pi))"
| "js_atan2 (Num y) (Num x) = Num (atan2 y x)"

definition js_in_range :: "jsnum \<Rightarrow> direction \<Rightarrow> bool" where
  "js_in_range normalizedAngle dir =
    (if min_deg dir > max_deg dir
     then js_ge normalizedAngle (Num (min_deg dir)) \<or> js_lt normalizedAngle (Num (max_deg dir))
     else js_ge normalizedAngle (Num (min_deg dir)) \<and> js_lt normalizedAngle (Num (max_deg dir)))"

definition js_getCardinalDirection :: "jsnum \<Rightarrow> string" where
  "js_getCardinalDirection currentAngle =
    (let normalizedAngle = js_mod (js_add currentAngle (Num 360)) (Num 360) in
     case find (js_in_range normalizedAngle) CARDINAL_DIRECTIONS of
       Some direction \<Rightarrow> label direction
     | None \<Rightarrow> '''')"

record js_effect =
  js_angle :: jsnum
  js_lastDirection :: string

definition js_mount :: "jsnum \<Rightarrow> js_effect" where
  "js_mount a = \<lparr>js_angle = a, js_lastDirection = js_getCardinalDirection a\<rparr>"

text \<open>The whole callback, statement by statement, on these numbers.\<close>

definition js_listener :: "js_effect \<Rightarrow> jsnum \<times> jsnum \<Rightarrow> jsnum \<times> bool \<times> js_effect" where
  "js_listener e s =
    (let x = fst s; y = snd s;
         heading0 = js_mul (js_atan2 y x) (Num (180 / pi));
         heading = (if js_ge heading0 (Num 0) then heading0 else js_add (Num 360) heading0);
         currentValue = js_angle e;
         delta0 = js_sub heading currentValue;
         delta = (if js_gt (js_abs delta0) (Num 180)
                  then (if js_gt delta0 (Num 0) then js_sub delta0 (Num 360)
                        else js_add delta0 (Num 360))
                  else delta0);
         new = js_mod (js_add currentValue (js_mul delta (Num 0.3))) (Num 360);
         newDirection = js_getCardinalDirection new
     in if newDirection \<in> set PRIMARY_DIRECTIONS \<and> newDirection \<noteq> js_lastDirection e
        then (new, True, e\<lparr>js_lastDirection := newDirection\<rparr>)
        else (new, False, e))"

text \<open>
  The sample and the rendering after it, as \<open>deliver\<close>. React compares the new state
  with the old one by \<open>Object.is\<close>, for which \<open>NaN\<close> equals \<open>NaN\<close>.
\<close>

definition js_deliver :: "js_effect \<Rightarrow> jsnum \<times> jsnum \<Rightarrow> bool \<times> js_effect" where
  "js_deliver e s =
    (case js_listener e s of
       (new, fired, e') \<Rightarrow> (fired, if new = js_angle e then e' else js_mount new))"

definition js_initial :: js_effect where
  "js_initial = js_mount (Num 0)"

section \<open>The normalization of the specification\<close>

text \<open>
  The specification normalizes with \<open>((angle % 360) + 360) % 360\<close>. This definition
  follows its words, for the comparison with \<open>normalize\<close>, which is the code's
  \<open>(currentAngle + 360) % 360\<close>.
\<close>

definition spec_normalize :: "real \<Rightarrow> real" where
  "spec_normalize a = js_rem (js_rem a 360 + 360) 360"

section \<open>Facts about the remainder\<close>

lemma js_rem_nonneg:
  assumes "0 \<le> a"
  shows "0 \<le> js_rem a 360" and "js_rem a 360 < 360"
proof -
  have q: "0 \<le> a / 360" using assms by simp
  have e: "js_rem a 360 = a - 360 * of_int \<lfloor>a / 360\<rfloor>"
    using q by (simp add: js_rem_def trunc_def)
  have "of_int \<lfloor>a / 360\<rfloor> \<le> a / 360" by (rule of_int_floor_le)
  then show "0 \<le> js_rem a 360" unfolding e by linarith
  have "a / 360 < of_int \<lfloor>a / 360\<rfloor> + 1" by linarith
  then show "js_rem a 360 < 360" unfolding e by linarith
qed

lemma js_rem_neg:
  assumes "a < 0"
  shows "- 360 < js_rem a 360" and "js_rem a 360 \<le> 0"
proof -
  have q: "\<not> 0 \<le> a / 360" using assms by simp
  have e: "js_rem a 360 = a - 360 * of_int \<lceil>a / 360\<rceil>"
    using q by (simp add: js_rem_def trunc_def)
  have "a / 360 \<le> of_int \<lceil>a / 360\<rceil>" by (rule le_of_int_ceiling)
  then show "js_rem a 360 \<le> 0" unfolding e by linarith
  have "of_int \<lceil>a / 360\<rceil> - 1 < a / 360" by linarith
  then show "- 360 < js_rem a 360" unfolding e by linarith
qed

lemma js_rem_bounds: "- 360 < js_rem a 360 \<and> js_rem a 360 < 360"
  using js_rem_nonneg[of a] js_rem_neg[of a] by (cases "0 \<le> a") auto

lemma js_rem_id:
  assumes "0 \<le> a" "a < 360"
  shows "js_rem a 360 = a"
proof -
  have "\<lfloor>a / 360\<rfloor> = 0" using assms by (simp add: floor_eq_iff)
  then show ?thesis using assms by (simp add: js_rem_def trunc_def)
qed

lemma js_rem_id_neg:
  assumes "- 360 < a" "a \<le> 0"
  shows "js_rem a 360 = a"
proof (cases "a = 0")
  case True then show ?thesis by (simp add: js_rem_def trunc_def)
next
  case False
  have "\<lceil>a / 360\<rceil> = 0" using assms by (simp add: ceiling_eq_iff)
  then show ?thesis using assms False by (simp add: js_rem_def trunc_def)
qed

lemma js_rem_shift:
  assumes "360 \<le> a" "a < 720"
  shows "js_rem a 360 = a - 360"
proof -
  have "\<lfloor>a / 360\<rfloor> = 1" using assms by (simp add: floor_eq_iff)
  then show ?thesis using assms by (simp add: js_rem_def trunc_def)
qed

lemma normalize_id: "0 \<le> a \<Longrightarrow> a < 360 \<Longrightarrow> normalize a = a"
  by (simp add: normalize_def js_rem_shift)



lemma filter_in_range:
  assumes "0 \<le> a" "a < 360"
  shows "\<exists>d. filter (in_range a) CARDINAL_DIRECTIONS = [d]"
proof -
  consider "a < 22.5" | "22.5 \<le> a \<and> a < 67.5" | "67.5 \<le> a \<and> a < 112.5"
    | "112.5 \<le> a \<and> a < 157.5" | "157.5 \<le> a \<and> a < 202.5" | "202.5 \<le> a \<and> a < 247.5"
    | "247.5 \<le> a \<and> a < 292.5" | "292.5 \<le> a \<and> a < 337.5" | "337.5 \<le> a"
    by linarith
  then show ?thesis
  proof cases
    case 1 then show ?thesis by (simp add: CARDINAL_DIRECTIONS_def in_range_def)
  next
    case 2 then show ?thesis by (simp add: CARDINAL_DIRECTIONS_def in_range_def)
  next
    case 3 then show ?thesis by (simp add: CARDINAL_DIRECTIONS_def in_range_def)
  next
    case 4 then show ?thesis by (simp add: CARDINAL_DIRECTIONS_def in_range_def)
  next
    case 5 then show ?thesis by (simp add: CARDINAL_DIRECTIONS_def in_range_def)
  next
    case 6 then show ?thesis by (simp add: CARDINAL_DIRECTIONS_def in_range_def)
  next
    case 7 then show ?thesis by (simp add: CARDINAL_DIRECTIONS_def in_range_def)
  next
    case 8 then show ?thesis by (simp add: CARDINAL_DIRECTIONS_def in_range_def)
  next
    case 9 then show ?thesis by (simp add: CARDINAL_DIRECTIONS_def in_range_def)
  qed
qed


lemma find_of_filter: "filter P xs = d # ds \<Longrightarrow> find P xs = Some d"
  by (induction xs) (auto split: if_splits)

lemma classify_in_table:
  assumes "0 \<le> a" "a < 360"
  shows "\<exists>d. filter (in_range (normalize a)) CARDINAL_DIRECTIONS = [d] \<and>
             getCardinalDirection a = label d"
proof -
  obtain d where d: "filter (in_range a) CARDINAL_DIRECTIONS = [d]"
    using filter_in_range[OF assms] by blast
  have "find (in_range a) CARDINAL_DIRECTIONS = Some d"
    using d by (rule find_of_filter)
  then have "getCardinalDirection a = label d"
    using assms by (simp add: getCardinalDirection_def normalize_id)
  then show ?thesis using d assms by (simp add: normalize_id)
qed

lemma labels_of_table:
  "d \<in> set CARDINAL_DIRECTIONS \<Longrightarrow>
     label d \<in> {''N'', ''NE'', ''E'', ''SE'', ''S'', ''SW'', ''W'', ''NW''}"
  by (auto simp add: CARDINAL_DIRECTIONS_def)

lemmas classify_eval =
  getCardinalDirection_def normalize_def js_rem_def trunc_def ceiling_def
  CARDINAL_DIRECTIONS_def in_range_def

section \<open>Classification\<close>

text \<open>
  Claim C1. For every angle in \<open>[0,360)\<close> exactly one entry of the table matches the
  normalized angle (no gap, no overlap), the classifier returns the label of that entry,
  and this label is one of the eight labels, which are pairwise distinct. A boundary
  value belongs to the range whose \<open>min\<close> it equals: 22.5 is NE, 337.5 is N; 0 and
  359.999 are N.
\<close>

theorem classification_total:
  "(\<forall>a. 0 \<le> a \<and> a < 360 \<longrightarrow>
      (\<exists>!d. d \<in> set CARDINAL_DIRECTIONS \<and> in_range (normalize a) d) \<and>
      (\<exists>d. d \<in> set CARDINAL_DIRECTIONS \<and> in_range (normalize a) d \<and>
           getCardinalDirection a = label d) \<and>
      getCardinalDirection a \<in> {''N'', ''NE'', ''E'', ''SE'', ''S'', ''SW'', ''W'', ''NW''})
   \<and> distinct (map label CARDINAL_DIRECTIONS)
   \<and> getCardinalDirection 22.5 = ''NE''
   \<and> getCardinalDirection 337.5 = ''N''
   \<and> getCardinalDirection 0 = ''N''
   \<and> getCardinalDirection 359.999 = ''N''"
proof -
  have univ: "(\<exists>!d. d \<in> set CARDINAL_DIRECTIONS \<and> in_range (normalize a) d) \<and>
      (\<exists>d. d \<in> set CARDINAL_DIRECTIONS \<and> in_range (normalize a) d \<and>
           getCardinalDirection a = label d) \<and>
      getCardinalDirection a \<in> {''N'', ''NE'', ''E'', ''SE'', ''S'', ''SW'', ''W'', ''NW''}"
    if h: "0 \<le> a" "a < 360" for a
  proof -
    obtain d where f: "filter (in_range (normalize a)) CARDINAL_DIRECTIONS = [d]"
      and l: "getCardinalDirection a = label d"
      using classify_in_table[OF h] by blast
    have s: "(x \<in> set CARDINAL_DIRECTIONS \<and> in_range (normalize a) x) = (x = d)" for x
    proof -
      have "x \<in> set (filter (in_range (normalize a)) CARDINAL_DIRECTIONS) \<longleftrightarrow> x = d"
        unfolding f by simp
      then show ?thesis by simp
    qed
    have m: "d \<in> set CARDINAL_DIRECTIONS" "in_range (normalize a) d"
      using s[of d] by simp_all
    have u: "\<exists>!d. d \<in> set CARDINAL_DIRECTIONS \<and> in_range (normalize a) d"
      using s by (intro ex1I[of _ d]) simp_all
    show ?thesis using u m l labels_of_table[OF m(1)] by metis
  qed
  have dist: "distinct (map label CARDINAL_DIRECTIONS)"
    by (simp add: CARDINAL_DIRECTIONS_def)
  have b1: "getCardinalDirection 22.5 = ''NE''" by (simp add: classify_eval)
  have b2: "getCardinalDirection 337.5 = ''N''" by (simp add: classify_eval)
  have b3: "getCardinalDirection 0 = ''N''" by (simp add: classify_eval)
  have b4: "getCardinalDirection 359.999 = ''N''" by (simp add: classify_eval)
  show ?thesis using univ dist b1 b2 b3 b4 by blast
qed

theorem classification_total_witness:
  "(0::real) \<le> 100 \<and> (100::real) < 360 \<and> getCardinalDirection 100 = ''E'' \<and>
   (\<exists>!d. d \<in> set CARDINAL_DIRECTIONS \<and> in_range (normalize 100) d)"
proof -
  have e: "getCardinalDirection 100 = ''E''" by (simp add: classify_eval)
  from classification_total have
    "(0::real) \<le> 100 \<and> (100::real) < 360 \<longrightarrow>
       (\<exists>!d. d \<in> set CARDINAL_DIRECTIONS \<and> in_range (normalize 100) d)"
    by blast
  then show ?thesis using e by simp
qed


section \<open>Facts about the smoother\<close>

lemma wrap360_shift: "wrap360 (t - 360 * of_int k) = wrap360 t"
proof -
  have "(t - 360 * of_int k) / 360 = t / 360 - of_int k" by (simp add: field_simps)
  then have "\<lfloor>(t - 360 * of_int k) / 360\<rfloor> = \<lfloor>t / 360 - of_int k\<rfloor>" by (rule arg_cong)
  also have "\<dots> = \<lfloor>t / 360\<rfloor> - k" by (rule floor_diff_of_int)
  finally have "\<lfloor>(t - 360 * of_int k) / 360\<rfloor> = \<lfloor>t / 360\<rfloor> - k" .
  then show ?thesis by (simp add: wrap360_def algebra_simps)
qed

lemma circ_dist_js_rem: "circ_dist (js_rem v 360) p = circ_dist v p"
proof -
  have "js_rem v 360 - p = (v - p) - 360 * of_int (trunc (v / 360))"
    by (simp add: js_rem_def)
  then have "wrap360 (js_rem v 360 - p) = wrap360 (v - p)"
    by (simp only: wrap360_shift)
  then show ?thesis by (simp only: circ_dist_def)
qed

lemma wrap360_nonneg: "0 \<le> t \<Longrightarrow> t < 360 \<Longrightarrow> wrap360 t = t"
proof -
  assume "0 \<le> t" "t < 360"
  then have "\<lfloor>t / 360\<rfloor> = 0" by (simp add: floor_eq_iff)
  then show ?thesis by (simp add: wrap360_def)
qed

lemma wrap360_neg: "- 360 \<le> t \<Longrightarrow> t < 0 \<Longrightarrow> wrap360 t = t + 360"
proof -
  assume "- 360 \<le> t" "t < 0"
  then have "\<lfloor>t / 360\<rfloor> = - 1" by (simp add: floor_eq_iff)
  then show ?thesis by (simp add: wrap360_def)
qed

lemma circ_dist_small:
  assumes "\<bar>t\<bar> \<le> 180"
  shows "circ_dist (p + t) p = \<bar>t\<bar>"
proof (cases "0 \<le> t")
  case True
  then have "wrap360 t = t" using assms by (simp add: wrap360_nonneg)
  then show ?thesis using True assms by (simp add: circ_dist_def)
next
  case False
  then have "wrap360 t = t + 360" using assms by (simp add: wrap360_neg)
  then show ?thesis using False assms by (simp add: circ_dist_def)
qed

lemma correct_delta_bound: "\<bar>delta\<bar> \<le> 540 \<Longrightarrow> \<bar>correct_delta delta\<bar> \<le> 180"
  by (simp add: correct_delta_def) linarith

lemma correct_delta_headings:
  assumes "0 \<le> p" "p < 360" "0 \<le> r" "r < 360"
  shows "\<bar>correct_delta (r - p)\<bar> \<le> 180"
  using assms by (intro correct_delta_bound) linarith

lemma smooth_dist:
  assumes "\<bar>correct_delta (r - p)\<bar> \<le> 180" "0 \<le> d" "d \<le> 1"
  shows "circ_dist (smooth d p r) p = \<bar>correct_delta (r - p)\<bar> * d"
proof -
  let ?t = "correct_delta (r - p) * d"
  have "\<bar>?t\<bar> = \<bar>correct_delta (r - p)\<bar> * d" using assms by (simp add: abs_mult)
  also have "\<dots> \<le> \<bar>correct_delta (r - p)\<bar> * 1"
    using assms by (intro mult_left_mono) simp_all
  finally have b: "\<bar>?t\<bar> \<le> 180" using assms by simp
  have "circ_dist (smooth d p r) p = circ_dist (p + ?t) p"
    by (simp add: smooth_def circ_dist_js_rem)
  also have "\<dots> = \<bar>?t\<bar>" using b by (rule circ_dist_small)
  finally show ?thesis using assms by (simp add: abs_mult)
qed

lemma newAngle_smooth: "newAngle p r = smooth 0.3 p r"
  by (simp add: newAngle_def smooth_def)


lemmas smooth_eval = newAngle_def correct_delta_def js_rem_def trunc_def ceiling_def

section \<open>Shortest-arc correction\<close>

text \<open>
  Claim C2. With \<open>delta = rawSample - previous\<close>, a delta of absolute value above 180
  is replaced by \<open>delta - 360\<close> when positive and by \<open>delta + 360\<close> otherwise, and a
  delta of absolute value at most 180 is kept; the new angle is the remainder of
  \<open>previous + delta * 0.3\<close>. For previous 350 and raw sample 10 the corrected delta is
  20, not -340, and the result is 356.
\<close>

theorem shortest_arc_correction:
  "(\<forall>delta. \<bar>delta\<bar> > 180 \<and> delta > 0 \<longrightarrow> correct_delta delta = delta - 360)
   \<and> (\<forall>delta. \<bar>delta\<bar> > 180 \<and> delta \<le> 0 \<longrightarrow> correct_delta delta = delta + 360)
   \<and> (\<forall>delta. \<bar>delta\<bar> \<le> 180 \<longrightarrow> correct_delta delta = delta)
   \<and> (\<forall>previous rawSample.
         newAngle previous rawSample =
           js_rem (previous + correct_delta (rawSample - previous) * 0.3) 360)
   \<and> correct_delta (10 - 350) = 20
   \<and> newAngle 350 10 = 356
   \<and> smooth 0.3 350 10 = 356"
proof -
  have a: "correct_delta delta = delta - 360" if "\<bar>delta\<bar> > 180 \<and> delta > 0" for delta
    using that by (auto simp add: correct_delta_def)
  have b: "correct_delta delta = delta + 360" if "\<bar>delta\<bar> > 180 \<and> delta \<le> 0" for delta
    using that by (auto simp add: correct_delta_def)
  have c: "correct_delta delta = delta" if "\<bar>delta\<bar> \<le> 180" for delta
    using that by (simp add: correct_delta_def)
  have d: "newAngle previous rawSample =
           js_rem (previous + correct_delta (rawSample - previous) * 0.3) 360"
    for previous rawSample
    by (simp add: newAngle_def)
  have e: "correct_delta (10 - 350) = 20" by (simp add: correct_delta_def)
  have f: "newAngle 350 10 = 356" by (simp add: smooth_eval)
  have g: "smooth 0.3 350 10 = 356" using f by (simp only: newAngle_smooth)
  show ?thesis using a b c d e f g by blast
qed

theorem shortest_arc_correction_witness:
  "\<bar>- 340 :: real\<bar> > 180 \<and> (- 340 :: real) \<le> 0 \<and> correct_delta (- 340) = 20
   \<and> \<bar>200 :: real\<bar> > 180 \<and> (200 :: real) > 0 \<and> correct_delta 200 = - 160
   \<and> \<bar>- 90 :: real\<bar> \<le> 180 \<and> correct_delta (- 90) = - 90"
proof -
  from shortest_arc_correction have
    "\<bar>- 340 :: real\<bar> > 180 \<and> (- 340 :: real) \<le> 0 \<longrightarrow> correct_delta (- 340) = - 340 + 360"
    "\<bar>200 :: real\<bar> > 180 \<and> (200 :: real) > 0 \<longrightarrow> correct_delta 200 = 200 - 360"
    "\<bar>- 90 :: real\<bar> \<le> 180 \<longrightarrow> correct_delta (- 90) = - 90"
    by blast+
  then show ?thesis by simp
qed

section \<open>Stable input\<close>

text \<open>
  Claim C7. For every heading \<open>h\<close> in \<open>[0,360)\<close> and every damping factor \<open>d\<close>,
  smoothing from \<open>h\<close> towards \<open>h\<close> returns \<open>h\<close>, so any number of repetitions
  leaves \<open>h\<close> unchanged; the listener's own step, with factor 0.3, is the instance.
\<close>

theorem stable_input_fixed_point:
  assumes "0 \<le> h" "h < 360"
  shows "smooth d h h = h \<and> ((\<lambda>p. smooth d p h) ^^ n) h = h \<and> newAngle h h = h"
proof -
  have one: "smooth d h h = h" for d
    using assms by (simp add: smooth_def correct_delta_def js_rem_id)
  have many: "((\<lambda>p. smooth d p h) ^^ n) h = h"
    by (induction n) (simp_all add: one)
  show ?thesis using one many by (simp add: newAngle_smooth)
qed

theorem stable_input_fixed_point_witness:
  "(0::real) \<le> 123 \<and> (123::real) < 360 \<and> smooth 0.7 123 123 = 123 \<and>
   ((\<lambda>p. smooth 0.7 p 123) ^^ 5) 123 = 123 \<and> newAngle 123 123 = 123"
  using stable_input_fixed_point [of 123 "0.7" 5] by simp

section \<open>The step from a previous angle in \<open>[0,360)\<close>\<close>

text \<open>
  When the previous angle and the raw heading are both in \<open>[0,360)\<close>, the corrected
  delta is at most 180 in absolute value, and a step with a factor \<open>d\<close> in \<open>[0,1]\<close>
  moves the angle by \<open>\<bar>delta\<bar> * d\<close> of circular distance. The two lemmas below are
  the consequences for two factors and for the factor 0.3. The listener does not
  establish their first two premises: it reads the stored angle as it is.
\<close>

lemma step_monotone_from_normalized:
  assumes "0 \<le> p" "p < 360" "0 \<le> r" "r < 360"
    and "correct_delta (r - p) \<noteq> 0"
    and "0 < d1" "d1 < d2" "d2 \<le> 1"
  shows "circ_dist (smooth d1 p r) p < circ_dist (smooth d2 p r) p
       \<and> circ_dist (smooth d1 p r) p \<le> \<bar>correct_delta (r - p)\<bar>
       \<and> circ_dist (smooth d2 p r) p \<le> \<bar>correct_delta (r - p)\<bar>"
proof -
  let ?c = "\<bar>correct_delta (r - p)\<bar>"
  have b: "?c \<le> 180" using assms(1-4) by (rule correct_delta_headings)
  have pos: "0 < ?c" using assms(5) by simp
  have e1: "circ_dist (smooth d1 p r) p = ?c * d1"
    using b assms(6-8) by (intro smooth_dist) simp_all
  have e2: "circ_dist (smooth d2 p r) p = ?c * d2"
    using b assms(6-8) by (intro smooth_dist) simp_all
  have lt: "?c * d1 < ?c * d2" using pos assms(7) by simp
  have le1: "?c * d1 \<le> ?c * 1" using pos assms(6-8) by (intro mult_left_mono) simp_all
  have le2: "?c * d2 \<le> ?c * 1" using pos assms(6-8) by (intro mult_left_mono) simp_all
  show ?thesis unfolding e1 e2 using lt le1 le2 by simp
qed

lemma step_at_most_54_from_normalized:
  assumes "0 \<le> p" "p < 360" "0 \<le> r" "r < 360"
  shows "circ_dist (newAngle p r) p \<le> 54"
proof -
  have b: "\<bar>correct_delta (r - p)\<bar> \<le> 180" using assms by (rule correct_delta_headings)
  have "circ_dist (newAngle p r) p = \<bar>correct_delta (r - p)\<bar> * 0.3"
    unfolding newAngle_smooth using b by (intro smooth_dist) simp_all
  then show ?thesis using b by simp
qed

section \<open>Facts about normalization and the raw heading\<close>

lemma js_rem_plus_360:
  assumes "0 \<le> v"
  shows "js_rem (v + 360) 360 = js_rem v 360"
proof -
  have "(v + 360) / 360 = v / 360 + 1" by simp
  then have "\<lfloor>(v + 360) / 360\<rfloor> = \<lfloor>v / 360 + 1\<rfloor>" by (rule arg_cong)
  also have "\<dots> = \<lfloor>v / 360\<rfloor> + 1" by simp
  finally have f: "\<lfloor>(v + 360) / 360\<rfloor> = \<lfloor>v / 360\<rfloor> + 1" .
  have "0 \<le> v / 360" "0 \<le> (v + 360) / 360" using assms by simp_all
  then have "js_rem (v + 360) 360 = v + 360 - 360 * of_int \<lfloor>(v + 360) / 360\<rfloor>"
    and "js_rem v 360 = v - 360 * of_int \<lfloor>v / 360\<rfloor>"
    by (simp_all add: js_rem_def trunc_def ceiling_def)
  then show ?thesis by (simp add: f)
qed

lemma normalize_range:
  assumes "- 360 \<le> a"
  shows "0 \<le> normalize a" and "normalize a < 360"
  using assms js_rem_nonneg[of "a + 360"] by (simp_all add: normalize_def)

lemma normalize_spec:
  assumes "- 360 \<le> a"
  shows "normalize a = spec_normalize a"
proof (cases "0 \<le> a")
  case True
  have "spec_normalize a = js_rem a 360"
    using js_rem_nonneg[OF True] by (simp add: spec_normalize_def js_rem_shift)
  then show ?thesis using True by (simp add: normalize_def js_rem_plus_360)
next
  case False
  show ?thesis
  proof (cases "a = - 360")
    case True
    then show ?thesis by (simp add: normalize_def spec_normalize_def js_rem_def trunc_def ceiling_def)
  next
    case n: False
    have "js_rem a 360 = a" using assms False n by (intro js_rem_id_neg) simp_all
    then show ?thesis by (simp add: normalize_def spec_normalize_def)
  qed
qed

lemma classify_normalize:
  assumes "- 360 \<le> a"
  shows "getCardinalDirection (normalize a) = getCardinalDirection a"
  using normalize_range[OF assms] by (simp add: getCardinalDirection_def normalize_id)

lemma atan2_range: "- pi < atan2 y x \<and> atan2 y x \<le> pi"
proof -
  have lo: "- (pi / 2) < arctan (y / x)" and hi: "arctan (y / x) < pi / 2"
    by (rule arctan_lbound, rule arctan_ubound)
  have p: "0 < pi" by (rule pi_gt_zero)
  consider "x > 0" | "x < 0" "y \<ge> 0" | "x < 0" "y < 0" | "x = 0" by linarith
  then show ?thesis
  proof cases
    case 1
    then have "atan2 y x = arctan (y / x)" by (simp add: atan2_def)
    then show ?thesis using lo hi p by linarith
  next
    case 2
    then have "y / x \<le> 0" by (simp add: divide_nonneg_neg)
    then have le: "arctan (y / x) \<le> 0" by (simp add: arctan_le_zero_iff)
    have "atan2 y x = arctan (y / x) + pi" using 2 by (simp add: atan2_def)
    then show ?thesis using le lo p by linarith
  next
    case 3
    then have "0 < y / x" by (simp add: divide_neg_neg)
    then have gt: "0 < arctan (y / x)" by (simp add: zero_less_arctan_iff)
    have "atan2 y x = arctan (y / x) - pi" using 3 by (simp add: atan2_def)
    then show ?thesis using gt hi p by linarith
  next
    case 4
    then have "atan2 y x = pi / 2 \<or> atan2 y x = - (pi / 2) \<or> atan2 y x = 0"
      by (simp add: atan2_def)
    then show ?thesis using p by linarith
  qed
qed

lemma raw_heading_range: "0 \<le> raw_heading x y \<and> raw_heading x y < 360"
proof -
  have p: "0 < pi" by (rule pi_gt_zero)
  let ?h = "atan2 y x * (180 / pi)"
  have lo: "- 180 < ?h"
  proof -
    have "- pi * (180 / pi) < ?h" using atan2_range[of y x] p
      by (intro mult_strict_right_mono) simp_all
    then show ?thesis using p by simp
  qed
  have hi: "?h \<le> 180"
  proof -
    have "?h \<le> pi * (180 / pi)" using atan2_range[of y x] p
      by (intro mult_right_mono) simp_all
    then show ?thesis using p by simp
  qed
  show ?thesis using lo hi by (simp add: raw_heading_def Let_def)
qed

lemma raw_heading_origin: "raw_heading 0 0 = 0" by (simp add: raw_heading_def atan2_def)


section \<open>Facts about the listener\<close>

lemma newAngle_bounds: "- 360 < newAngle p r \<and> newAngle p r < 360"
  by (simp add: newAngle_def Let_def js_rem_bounds)

lemma deliver_mount:
  "deliver (mount a) s =
    (let new = newAngle a (raw_heading (fst s) (snd s));
         l = getCardinalDirection new
     in (l \<in> set PRIMARY_DIRECTIONS \<and> l \<noteq> getCardinalDirection a, mount new))"
  by (auto simp add: deliver_def listener_def on_heading_def mount_def Let_def)

lemma angle_mount: "angle (mount a) = a" by (simp add: mount_def)
lemma lastDirection_mount: "lastDirection (mount a) = getCardinalDirection a" by (simp add: mount_def)

lemma run_mount:
  assumes "- 360 < a" "a < 360"
  shows "\<exists>a'. snd (run (mount a) ss) = mount a' \<and> - 360 < a' \<and> a' < 360"
  using assms
proof (induction ss arbitrary: a)
  case Nil
  then show ?case by auto
next
  case (Cons s ss)
  let ?n = "newAngle a (raw_heading (fst s) (snd s))"
  obtain a' where a': "snd (run (mount ?n) ss) = mount a'" "- 360 < a'" "a' < 360"
    using Cons.IH[of ?n] newAngle_bounds[of a "raw_heading (fst s) (snd s)"] by blast
  have "snd (run (mount a) (s # ss)) = snd (run (mount ?n) ss)"
    by (simp add: deliver_mount Let_def split: prod.splits)
  then show ?case using a' by auto
qed

lemma raw_heading_east: "raw_heading 1 0 = 0"
  by (simp add: raw_heading_def atan2_def)

lemma raw_heading_north: "raw_heading 0 1 = 90"
  by (simp add: raw_heading_def atan2_def)

lemma raw_heading_south_east: "raw_heading 1 (- 1) = 315"
  by (simp add: raw_heading_def atan2_def arctan_minus arctan_one)

section \<open>Normalization in the classifier\<close>

text \<open>
  Claim C4, as stated: for every real angle the classifier normalizes with
  \<open>((angle % 360) + 360) % 360\<close> and classifies the normalized value. The code adds
  360 once and takes one remainder; at -400 this gives -40, which the wraparound row N
  accepts by its \<open>normalizedAngle < max\<close> disjunct, while the normalized angle 320 is
  NW.
\<close>

theorem classify_below_minus_360_counterexample:
  "getCardinalDirection (- 400) \<noteq> getCardinalDirection (spec_normalize (- 400))"
proof -
  have a: "getCardinalDirection (- 400) = ''N''" by (simp add: classify_eval)
  have b: "spec_normalize (- 400) = 320"
    by (simp add: spec_normalize_def js_rem_def trunc_def ceiling_def)
  have c: "getCardinalDirection 320 = ''NW''" by (simp add: classify_eval)
  show ?thesis by (simp add: a b c)
qed

text \<open>
  Claim C4, amended. For every angle of at least -360, which includes every value the
  stored angle takes, the code's \<open>(angle + 360) % 360\<close> lies in \<open>[0,360)\<close>, equals
  \<open>((angle % 360) + 360) % 360\<close>, and the classification of the angle is the
  classification of the normalized angle.
\<close>

theorem classify_normalizes_from_minus_360:
  assumes "- 360 \<le> a"
  shows "0 \<le> normalize a \<and> normalize a < 360
       \<and> normalize a = spec_normalize a
       \<and> getCardinalDirection a = getCardinalDirection (normalize a)
       \<and> getCardinalDirection a = getCardinalDirection (spec_normalize a)"
  using normalize_range[OF assms] normalize_spec[OF assms] classify_normalize[OF assms]
  by simp

theorem classify_normalizes_from_minus_360_witness:
  "(- 360 :: real) \<le> - 45 \<and> normalize (- 45) = 315 \<and> spec_normalize (- 45) = 315
   \<and> getCardinalDirection (- 45) = ''NW'' \<and> getCardinalDirection 315 = ''NW''"
proof -
  have n: "normalize (- 45) = 315" by (simp add: normalize_def js_rem_def trunc_def)
  have c: "getCardinalDirection 315 = ''NW''" by (simp add: classify_eval)
  show ?thesis using n c classify_normalizes_from_minus_360 [of "- 45"] by simp
qed

section \<open>The range of the stored angle\<close>

text \<open>
  Claim C5, as stated: the stored heading and the heading handed on are always in
  \<open>[0,360)\<close>. From the initial angle 0 the sample \<open>(1, -1)\<close> has raw heading 315, the
  corrected delta is -45, and the remainder of -13.5 is -13.5, which is what
  \<open>setAngle\<close> receives and the next effect captures.
\<close>

theorem stored_angle_negative_counterexample:
  "fst (listener initial (1, - 1)) = - 13.5
   \<and> angle (snd (deliver initial (1, - 1))) = - 13.5
   \<and> \<not> (0 \<le> angle (snd (deliver initial (1, - 1))))"
proof -
  have n: "newAngle 0 315 = - 13.5" by (simp add: smooth_eval)
  have a: "fst (listener initial (1, - 1)) = - 13.5"
    using n
    by (simp add: initial_def listener_def on_heading_def Let_def angle_mount
        raw_heading_south_east)
  have b: "angle (snd (deliver initial (1, - 1))) = - 13.5"
    using n by (simp add: initial_def deliver_mount Let_def angle_mount raw_heading_south_east)
  show ?thesis using a b by simp
qed

text \<open>
  Claim C5, amended. After each sample the new value, the remainder of
  \<open>previous + delta * 0.3\<close> by 360 with the sign of the dividend, is stored as it is,
  without renormalization. It lies strictly between -360 and 360, after one sample from
  any instance and after any sequence of samples from the initial one, and the
  normalization \<open>(angle + 360) % 360\<close> that the classifier and the display apply to it
  lies in \<open>[0,360)\<close>.
\<close>

theorem stored_angle_range:
  "fst (listener e s) =
     js_rem (angle e + correct_delta (raw_heading (fst s) (snd s) - angle e) * 0.3) 360
   \<and> - 360 < fst (listener e s) \<and> fst (listener e s) < 360
   \<and> 0 \<le> normalize (fst (listener e s)) \<and> normalize (fst (listener e s)) < 360
   \<and> - 360 < angle (snd (run initial ss)) \<and> angle (snd (run initial ss)) < 360
   \<and> 0 \<le> normalize (angle (snd (run initial ss)))
   \<and> normalize (angle (snd (run initial ss))) < 360"
proof -
  let ?h = "raw_heading (fst s) (snd s)"
  have l: "fst (listener e s) = newAngle (angle e) ?h"
    by (simp add: listener_def on_heading_def Let_def)
  have f: "fst (listener e s) = js_rem (angle e + correct_delta (?h - angle e) * 0.3) 360"
    unfolding l by (simp add: newAngle_def)
  have b1: "- 360 < fst (listener e s)" "fst (listener e s) < 360"
    unfolding l using newAngle_bounds by simp_all
  have n1: "0 \<le> normalize (fst (listener e s))" "normalize (fst (listener e s)) < 360"
    using b1 by (simp_all add: normalize_range)
  obtain a' where a': "snd (run (mount 0) ss) = mount a'" "- 360 < a'" "a' < 360"
    using run_mount[of 0 ss] by auto
  have r: "angle (snd (run initial ss)) = a'"
    using a' by (simp add: initial_def angle_mount)
  have n2: "0 \<le> normalize a'" "normalize a' < 360"
    using a' by (simp_all add: normalize_range)
  show ?thesis unfolding r using f b1 n1 a' n2 by simp
qed

section \<open>The degenerate sample\<close>

lemma atan2_signed_Val: "atan2_signed (Val y) (Val x) = atan2 y x"
  by (simp add: atan2_signed_def atan2_def)

lemma raw_heading_signed_Val: "raw_heading_signed (Val x) (Val y) = raw_heading x y"
  by (simp add: raw_heading_signed_def raw_heading_def atan2_signed_Val)

lemma atan2_signed_range: "- pi \<le> atan2_signed y x \<and> atan2_signed y x \<le> pi"
proof -
  have p: "0 < pi" by (rule pi_gt_zero)
  have "atan2_signed y x = 0 \<or> atan2_signed y x = - pi \<or> atan2_signed y x = pi
        \<or> atan2_signed y x = atan2 (value_of y) (value_of x)"
    by (simp add: atan2_signed_def)
  then show ?thesis using p atan2_range[of "value_of y" "value_of x"] by linarith
qed

lemma raw_heading_signed_range:
  "0 \<le> raw_heading_signed x y \<and> raw_heading_signed x y < 360"
proof -
  have p: "0 < pi" by (rule pi_gt_zero)
  let ?h = "atan2_signed y x * (180 / pi)"
  have lo: "- 180 \<le> ?h"
  proof -
    have "- pi * (180 / pi) \<le> ?h" using atan2_signed_range[of y x] p
      by (intro mult_right_mono) simp_all
    then show ?thesis using p by simp
  qed
  have hi: "?h \<le> 180"
  proof -
    have "?h \<le> pi * (180 / pi)" using atan2_signed_range[of y x] p
      by (intro mult_right_mono) simp_all
    then show ?thesis using p by simp
  qed
  show ?thesis using lo hi by (simp add: raw_heading_signed_def Let_def)
qed

text \<open>
  Claim C9, as stated: the sample \<open>x = 0, y = 0\<close> is treated as raw heading 0. The
  listener has no case for the origin and takes what \<open>Math.atan2\<close> returns. For
  \<open>x = -0\<close> and \<open>y = +0\<close> that is \<open>\<pi>\<close>: the raw heading is 180, and from the initial
  angle 0 the listener stores 54.
\<close>

theorem negative_zero_origin_counterexample:
  "value_of NegZero = 0 \<and> value_of (Val 0) = 0
   \<and> raw_heading_signed NegZero (Val 0) = 180
   \<and> raw_heading_signed NegZero (Val 0) \<noteq> 0
   \<and> fst (listener_signed initial (NegZero, Val 0)) = 54"
proof -
  have h: "raw_heading_signed NegZero (Val 0) = 180"
    by (simp add: raw_heading_signed_def atan2_signed_def)
  have n: "newAngle 0 180 = 54" by (simp add: smooth_eval)
  have l: "fst (listener_signed initial (NegZero, Val 0)) = 54"
    by (simp add: listener_signed_def on_heading_def h n Let_def initial_def angle_mount)
  show ?thesis using h l by simp
qed

text \<open>
  Claim C9, amended. The sample \<open>x = 0, y = 0\<close> has no case of its own and is never an
  error: the listener processes it as any other sample, with the raw heading that
  \<open>Math.atan2\<close> gives, which is 0 when \<open>x\<close> is the positive zero and 180 when \<open>x\<close> is
  the negative zero, whatever the sign of the zero \<open>y\<close>. For every sample, the origin
  included, the raw heading, \<open>atan2(y, x)\<close> in degrees with 360 added when negative,
  lies in \<open>[0,360)\<close> in exact arithmetic. On coordinates without a negative zero the
  raw heading is \<open>raw_heading\<close>.
\<close>

theorem origin_sample_processed:
  "raw_heading_signed (Val 0) (Val 0) = 0
   \<and> raw_heading_signed (Val 0) NegZero = 0
   \<and> raw_heading_signed NegZero (Val 0) = 180
   \<and> raw_heading_signed NegZero NegZero = 180
   \<and> listener_signed e (Val 0, Val 0) = on_heading e 0
   \<and> listener_signed e (NegZero, Val 0) = on_heading e 180
   \<and> (\<forall>x y. 0 \<le> raw_heading_signed x y \<and> raw_heading_signed x y < 360)
   \<and> (\<forall>x y. raw_heading_signed (Val x) (Val y) = raw_heading x y)"
proof -
  have o1: "raw_heading_signed (Val 0) (Val 0) = 0"
    by (simp add: raw_heading_signed_def atan2_signed_def)
  have o2: "raw_heading_signed (Val 0) NegZero = 0"
    by (simp add: raw_heading_signed_def atan2_signed_def)
  have o3: "raw_heading_signed NegZero (Val 0) = 180"
    by (simp add: raw_heading_signed_def atan2_signed_def)
  have o4: "raw_heading_signed NegZero NegZero = 180"
    by (simp add: raw_heading_signed_def atan2_signed_def)
  have l1: "listener_signed e (Val 0, Val 0) = on_heading e 0"
    by (simp add: listener_signed_def o1)
  have l2: "listener_signed e (NegZero, Val 0) = on_heading e 180"
    by (simp add: listener_signed_def o3)
  show ?thesis
    using o1 o2 o3 o4 l1 l2 raw_heading_signed_range raw_heading_signed_Val by simp
qed

section \<open>The haptic event\<close>

text \<open>
  Claim C3 says that the haptic event fires only on entry to a primary label different
  from the last primary label recorded, that a diagonal label never becomes
  \<open>lastDirection\<close>, and that the event never fires twice in a row for the same primary
  label when only diagonal samples lie between. On the code, the samples
  \<open>(0,1), (1,0), (0,1), (1,0), (1,0)\<close> from the initial angle 0 (label N) give the
  labels NE, N, NE, NE, N. The event fires at the second sample, on the return to N,
  and again at the fifth, with no other primary label in between: each change of
  \<open>angle\<close> runs the effect again, which declares \<open>lastDirection\<close> as the label of the
  new angle, NE after the first sample.
\<close>

theorem haptic_refires_after_diagonal:
  "lastDirection initial = ''N''
   \<and> fst (run initial [(0, 1), (1, 0), (0, 1), (1, 0), (1, 0)]) =
       [(False, ''NE''), (True, ''N''), (False, ''NE''), (False, ''NE''), (True, ''N'')]
   \<and> lastDirection (snd (deliver initial (0, 1))) = ''NE''"
proof -
  have n1: "newAngle 0 90 = 27" by (simp add: smooth_eval)
  have n2: "newAngle 27 0 = 189 / 10" by (simp add: smooth_eval)
  have n3: "newAngle (189 / 10) 90 = 4023 / 100" by (simp add: smooth_eval)
  have n4: "newAngle (4023 / 100) 0 = 28161 / 1000" by (simp add: smooth_eval)
  have n5: "newAngle (28161 / 1000) 0 = 197127 / 10000" by (simp add: smooth_eval)
  have l0: "getCardinalDirection 0 = ''N''" by (simp add: classify_eval)
  have l1: "getCardinalDirection 27 = ''NE''" by (simp add: classify_eval)
  have l2: "getCardinalDirection (189 / 10) = ''N''" by (simp add: classify_eval)
  have l3: "getCardinalDirection (4023 / 100) = ''NE''" by (simp add: classify_eval)
  have l4: "getCardinalDirection (28161 / 1000) = ''NE''" by (simp add: classify_eval)
  have l5: "getCardinalDirection (197127 / 10000) = ''N''" by (simp add: classify_eval)
  have d1: "deliver (mount 0) (0, 1) = (False, mount 27)"
    by (simp add: deliver_mount raw_heading_north n1 l0 l1 PRIMARY_DIRECTIONS_def Let_def)
  have d2: "deliver (mount 27) (1, 0) = (True, mount (189 / 10))"
    by (simp add: deliver_mount raw_heading_east n2 l1 l2 PRIMARY_DIRECTIONS_def Let_def)
  have d3: "deliver (mount (189 / 10)) (0, 1) = (False, mount (4023 / 100))"
    by (simp add: deliver_mount raw_heading_north n3 l2 l3 PRIMARY_DIRECTIONS_def Let_def)
  have d4: "deliver (mount (4023 / 100)) (1, 0) = (False, mount (28161 / 1000))"
    by (simp add: deliver_mount raw_heading_east n4 l3 l4 PRIMARY_DIRECTIONS_def Let_def)
  have d5: "deliver (mount (28161 / 1000)) (1, 0) = (True, mount (197127 / 10000))"
    by (simp add: deliver_mount raw_heading_east n5 l4 l5 PRIMARY_DIRECTIONS_def Let_def)
  have a: "lastDirection initial = ''N''"
    by (simp add: initial_def lastDirection_mount l0)
  have b: "fst (run initial [(0, 1), (1, 0), (0, 1), (1, 0), (1, 0)]) =
       [(False, ''NE''), (True, ''N''), (False, ''NE''), (False, ''NE''), (True, ''N'')]"
    by (simp add: initial_def d1 d2 d3 d4 d5 angle_mount l1 l2 l3 l4 l5)
  have c: "lastDirection (snd (deliver initial (0, 1))) = ''NE''"
    by (simp add: initial_def d1 lastDirection_mount l1)
  show ?thesis using a b c by simp
qed


section \<open>Facts about the listener on non-finite numbers\<close>

lemma js_in_range_Num: "js_in_range (Num n) d = in_range n d"
  by (auto simp add: js_in_range_def in_range_def js_lt_def)

lemma js_in_range_NaN: "js_in_range NaN d = False"
  by (simp add: js_in_range_def js_lt_def)

lemma js_classify_Num: "js_getCardinalDirection (Num a) = getCardinalDirection a"
proof -
  have "js_in_range (Num n) = in_range n" for n
    by (rule ext) (rule js_in_range_Num)
  then show ?thesis
    by (simp add: js_getCardinalDirection_def getCardinalDirection_def normalize_def)
qed

lemma find_never: "(\<And>x. \<not> P x) \<Longrightarrow> find P xs = None"
  by (induction xs) simp_all

lemma js_classify_NaN: "js_getCardinalDirection NaN = ''''"
  by (simp add: js_getCardinalDirection_def find_never js_in_range_NaN)

lemma js_listener_Num:
  "js_listener \<lparr>js_angle = Num a, js_lastDirection = l\<rparr> (Num x, Num y) =
    (case listener \<lparr>angle = a, lastDirection = l\<rparr> (x, y) of
       (new, fired, e') \<Rightarrow>
         (Num new, fired, \<lparr>js_angle = Num (angle e'), js_lastDirection = lastDirection e'\<rparr>))"
  by (simp add: js_listener_def listener_def on_heading_def raw_heading_def newAngle_def
      correct_delta_def js_sub_def js_classify_Num Let_def)

lemma js_add_NaN_right: "js_add a NaN = NaN"
  by (cases a) simp_all

lemma js_atan2_NaN_right: "js_atan2 y NaN = NaN"
  by (cases y) simp_all

lemma js_poisoned:
  assumes "js_atan2 (snd s) (fst s) = NaN \<or> js_angle e = NaN"
  shows "js_listener e s = (NaN, False, e)"
proof -
  let ?h0 = "js_mul (js_atan2 (snd s) (fst s)) (Num (180 / pi))"
  let ?h = "if js_ge ?h0 (Num 0) then ?h0 else js_add (Num 360) ?h0"
  have d: "js_sub ?h (js_angle e) = NaN"
    using assms by (auto simp add: js_sub_def js_add_NaN_right)
  show ?thesis
    by (simp add: js_listener_def Let_def d js_add_NaN_right js_classify_NaN
        PRIMARY_DIRECTIONS_def)
qed

lemma js_listener_NaN_sample:
  assumes "fst s = NaN \<or> snd s = NaN"
  shows "js_listener e s = (NaN, False, e)"
proof -
  have "js_atan2 (snd s) (fst s) = NaN" using assms by (auto simp add: js_atan2_NaN_right)
  then show ?thesis by (simp add: js_poisoned)
qed

lemma js_atan2_finite:
  assumes "x \<noteq> NaN" "y \<noteq> NaN"
  shows "\<exists>t. js_atan2 y x = Num t"
proof -
  have "js_atan2 y x \<noteq> PosInf \<and> js_atan2 y x \<noteq> NegInf \<and> js_atan2 y x \<noteq> NaN"
    using assms by (cases y; cases x) simp_all
  then show ?thesis by (cases "js_atan2 y x") simp_all
qed

lemma js_listener_finite:
  assumes "js_atan2 (snd s) (fst s) = Num t" "js_angle e = Num a"
  shows "fst (js_listener e s) =
     Num (newAngle a (if t * (180 / pi) \<ge> 0 then t * (180 / pi) else 360 + t * (180 / pi)))"
  using assms
  by (simp add: js_listener_def Let_def js_sub_def newAngle_def correct_delta_def)

section \<open>Non-finite input\<close>

text \<open>
  Claim C6, as stated: a sample with \<open>NaN\<close> or an infinity in \<open>x\<close> or \<open>y\<close> is rejected
  with a signalled condition and leaves the stored heading unchanged. The listener has
  no check and no error result. From the initial angle 0 the sample \<open>(NaN, 1)\<close> makes
  the stored angle \<open>NaN\<close>, and the sample \<open>(1, +Infinity)\<close>, whose \<open>atan2\<close> is \<open>\<pi>/2\<close>,
  makes it 27.
\<close>

theorem non_finite_sample_stored_counterexample:
  "js_angle js_initial = Num 0
   \<and> js_angle (snd (js_deliver js_initial (NaN, Num 1))) = NaN
   \<and> js_angle (snd (js_deliver js_initial (Num 1, PosInf))) = Num 27
   \<and> js_angle (snd (js_deliver js_initial (NaN, Num 1))) \<noteq> js_angle js_initial
   \<and> js_angle (snd (js_deliver js_initial (Num 1, PosInf))) \<noteq> js_angle js_initial"
proof -
  have a: "js_angle js_initial = Num 0" by (simp add: js_initial_def js_mount_def)
  have "js_listener js_initial (NaN, Num 1) = (NaN, False, js_initial)"
    by (simp add: js_listener_NaN_sample)
  then have b: "js_angle (snd (js_deliver js_initial (NaN, Num 1))) = NaN"
    by (simp add: js_deliver_def a js_mount_def)
  have n: "newAngle 0 90 = 27" by (simp add: smooth_eval)
  have "fst (js_listener js_initial (Num 1, PosInf)) = Num 27"
    using js_listener_finite[of "(Num 1, PosInf)" "pi / 2" js_initial 0] a n by simp
  then obtain f e' where "js_listener js_initial (Num 1, PosInf) = (Num 27, f, e')"
    by (cases "js_listener js_initial (Num 1, PosInf)") simp
  then have c: "js_angle (snd (js_deliver js_initial (Num 1, PosInf))) = Num 27"
    by (simp add: js_deliver_def a js_mount_def)
  show ?thesis using a b c by simp
qed

text \<open>
  Claim C6, amended. Non-finite input is not rejected and nothing is signalled; the
  listener processes every sample. When \<open>x\<close> or \<open>y\<close> is \<open>NaN\<close>, or the stored angle is
  \<open>NaN\<close> already, the new angle is \<open>NaN\<close>, no haptic call is made and \<open>lastDirection\<close>
  is kept, so after one such sample the stored angle is \<open>NaN\<close> for every later sample.
  When neither \<open>x\<close> nor \<open>y\<close> is \<open>NaN\<close>, infinities included, and the stored angle is
  finite, the new angle is finite and strictly between -360 and 360.
\<close>

theorem non_finite_input_processed:
  "(fst s = NaN \<or> snd s = NaN \<or> js_angle e = NaN \<longrightarrow>
      js_listener e s = (NaN, False, e) \<and> js_angle (snd (js_deliver e s)) = NaN)
   \<and> (fst s \<noteq> NaN \<and> snd s \<noteq> NaN \<and> js_angle e = Num a \<longrightarrow>
      (\<exists>b. fst (js_listener e s) = Num b \<and> - 360 < b \<and> b < 360))"
proof -
  have p: "js_listener e s = (NaN, False, e) \<and> js_angle (snd (js_deliver e s)) = NaN"
    if h: "fst s = NaN \<or> snd s = NaN \<or> js_angle e = NaN"
  proof -
    have "js_atan2 (snd s) (fst s) = NaN \<or> js_angle e = NaN"
      using h by (auto simp add: js_atan2_NaN_right)
    then have l: "js_listener e s = (NaN, False, e)" by (rule js_poisoned)
    have "js_angle (snd (js_deliver e s)) = NaN"
      by (simp add: js_deliver_def l js_mount_def)
    then show ?thesis using l by simp
  qed
  have q: "\<exists>b. fst (js_listener e s) = Num b \<and> - 360 < b \<and> b < 360"
    if h: "fst s \<noteq> NaN \<and> snd s \<noteq> NaN \<and> js_angle e = Num a"
  proof -
    obtain t where t: "js_atan2 (snd s) (fst s) = Num t"
      using h js_atan2_finite[of "fst s" "snd s"] by blast
    show ?thesis
      using js_listener_finite[OF t, of e a] h newAngle_bounds by blast
  qed
  show ?thesis using p q by blast
qed

theorem non_finite_input_processed_witness:
  "js_listener js_initial (NaN, Num 1) = (NaN, False, js_initial)
   \<and> js_angle (snd (js_deliver js_initial (NaN, Num 1))) = NaN
   \<and> js_angle js_initial = Num 0
   \<and> (\<exists>b. fst (js_listener js_initial (Num 1, PosInf)) = Num b \<and> - 360 < b \<and> b < 360)"
proof -
  have a: "js_angle js_initial = Num 0" by (simp add: js_initial_def js_mount_def)
  have 1: "js_listener js_initial (NaN, Num 1) = (NaN, False, js_initial)
      \<and> js_angle (snd (js_deliver js_initial (NaN, Num 1))) = NaN"
    using non_finite_input_processed [of "(NaN, Num 1)" js_initial 0] by simp
  have 2: "\<exists>b. fst (js_listener js_initial (Num 1, PosInf)) = Num b \<and> - 360 < b \<and> b < 360"
    using non_finite_input_processed [of "(Num 1, PosInf)" js_initial 0] a by simp
  show ?thesis using a 1 2 by simp
qed


section \<open>The step from a stored angle below -180\<close>

lemma run_step_angle:
  "snd (run (mount a) (s # ss)) =
     snd (run (mount (newAngle a (raw_heading (fst s) (snd s)))) ss)"
  by (simp add: deliver_mount Let_def split: prod.splits)

lemma raw_heading_south_west: "raw_heading (- 1) (- 1) = 225"
  by (simp add: raw_heading_def atan2_def arctan_one)

lemma raw_heading_west: "raw_heading (- 1) 0 = 180"
  by (simp add: raw_heading_def atan2_def)

lemma raw_heading_north_west: "raw_heading (- 1) 1 = 135"
  by (simp add: raw_heading_def atan2_def arctan_minus arctan_one)

lemma raw_heading_north_east: "raw_heading 1 1 = 45"
  by (simp add: raw_heading_def atan2_def arctan_one)

text \<open>
  Six samples whose raw headings 225, 180, 135, 90, 45, 0 stay more than 180 degrees
  away from the stored angle: each delta is corrected to a negative one and the stored
  angle goes down, to -40.5, -82.35, -125.145, -168.6015, -212.52105 and -256.764735.
\<close>

lemma drift_steps:
  "newAngle 0 225 = - (81 / 2)"
  "newAngle (- (81 / 2)) 180 = - (1647 / 20)"
  "newAngle (- (1647 / 20)) 135 = - (25029 / 200)"
  "newAngle (- (25029 / 200)) 90 = - (337203 / 2000)"
  "newAngle (- (337203 / 2000)) 45 = - (4250421 / 20000)"
  "newAngle (- (4250421 / 20000)) 0 = - (51352947 / 200000)"
  by (simp_all add: smooth_eval)

lemma drift_six:
  "snd (run initial [(- 1, - 1), (- 1, 0), (- 1, 1), (0, 1), (1, 1), (1, 0)]) =
     mount (- (51352947 / 200000))"
  by (simp del: run.simps
      add: run.simps(1) initial_def run_step_angle raw_heading_south_west raw_heading_west
        raw_heading_north_west raw_heading_north raw_heading_north_east raw_heading_east
        drift_steps)

lemma drift_seventh: "newAngle (- (51352947 / 200000)) 315 = - (386470629 / 2000000)"
  by (simp add: smooth_eval)

lemma drift_seven:
  "snd (run initial [(- 1, - 1), (- 1, 0), (- 1, 1), (0, 1), (1, 1), (1, 0), (1, - 1)]) =
     mount (- (386470629 / 2000000))"
  by (simp del: run.simps
      add: run.simps(1) initial_def run_step_angle raw_heading_south_west raw_heading_west
        raw_heading_north_west raw_heading_north raw_heading_north_east raw_heading_east
        raw_heading_south_east drift_steps drift_seventh)


text \<open>
  Claim C10 says that one sample never moves the heading by more than 54 degrees of
  circular distance. On the code, the samples \<open>(-1,-1), (-1,0), (-1,1), (0,1), (1,1),
  (1,0)\<close> from the initial angle 0 leave the stored angle at -256.764735, displayed as
  103.235265. The next sample \<open>(1,-1)\<close> has raw heading 315; the delta 571.764735 is
  corrected once, to 211.764735, and the new stored angle is -193.2353145, displayed as
  166.7646855: a step of 63.5294205 degrees. The listener reads the stored angle without
  the normalization that the classifier and the display apply to it, so one correction
  by 360 does not bring the delta within 180.
\<close>

theorem step_exceeds_54_after_drift:
  "angle (snd (run initial [(- 1, - 1), (- 1, 0), (- 1, 1), (0, 1), (1, 1), (1, 0)]))
     = - 256.764735
   \<and> normalize (- 256.764735) = 103.235265
   \<and> raw_heading 1 (- 1) = 315
   \<and> correct_delta (315 - (- 256.764735)) = 211.764735
   \<and> angle (snd (run initial
        [(- 1, - 1), (- 1, 0), (- 1, 1), (0, 1), (1, 1), (1, 0), (1, - 1)]))
     = - 193.2353145
   \<and> normalize (- 193.2353145) = 166.7646855
   \<and> circ_dist (- 193.2353145) (- 256.764735) = 63.5294205
   \<and> circ_dist (normalize (- 193.2353145)) (normalize (- 256.764735)) = 63.5294205
   \<and> \<not> circ_dist (newAngle (- 256.764735) 315) (- 256.764735) \<le> 54"
proof -
  have a6: "angle (snd (run initial [(- 1, - 1), (- 1, 0), (- 1, 1), (0, 1), (1, 1), (1, 0)]))
      = - 256.764735"
    by (simp del: run.simps add: drift_six angle_mount)
  have a7: "angle (snd (run initial
        [(- 1, - 1), (- 1, 0), (- 1, 1), (0, 1), (1, 1), (1, 0), (1, - 1)]))
      = - 193.2353145"
    by (simp del: run.simps add: drift_seven angle_mount)
  have n6: "normalize (- 256.764735) = 103.235265"
    by (simp add: normalize_def js_rem_def trunc_def ceiling_def)
  have n7: "normalize (- 193.2353145) = 166.7646855"
    by (simp add: normalize_def js_rem_def trunc_def ceiling_def)
  have d: "correct_delta (315 - (- 256.764735)) = 211.764735"
    by (simp add: correct_delta_def)
  have c1: "circ_dist (- 193.2353145) (- 256.764735) = 63.5294205"
    by (simp add: circ_dist_def wrap360_def)
  have c2: "circ_dist (normalize (- 193.2353145)) (normalize (- 256.764735)) = 63.5294205"
    unfolding n6 n7 by (simp add: circ_dist_def wrap360_def)
  have c3: "\<not> circ_dist (newAngle (- 256.764735) 315) (- 256.764735) \<le> 54"
    using drift_seventh by (simp add: circ_dist_def wrap360_def)
  show ?thesis using a6 a7 n6 n7 d c1 c2 c3 raw_heading_south_east by blast
qed


end
